theory Spec2Isabelle
  imports Main
begin

section \<open>The upload gateway of \<^verbatim>\<open>src/aws-backend/main.go\<close>\<close>

text \<open>
  The two HTTP handlers of the service, \<^verbatim>\<open>handleUpload\<close> and \<^verbatim>\<open>showLibrary\<close>, are
  embedded as functions from the request (what the handler reads out of the
  \<^verbatim>\<open>gin.Context\<close>) and the storage capability it calls to the response it writes
  with \<^verbatim>\<open>c.JSON\<close> together with the list of backend calls it made. Go strings are byte
  sequences, as \<^typ>\<open>string\<close> is here. Logging (\<^verbatim>\<open>log.Printf\<close>) and the deferred
  \<^verbatim>\<open>f.Close()\<close> are not part of the model.
\<close>

subsection \<open>Go slices\<close>

text \<open>
  A slice variable declared without a value (\<^verbatim>\<open>var books []map[string]string\<close>) holds
  the nil slice; \<^verbatim>\<open>append\<close> on any slice returns an allocated one. Both the nil slice
  and \<^verbatim>\<open>Slice []\<close> have length 0.
\<close>

datatype 'a slice = nil_slice | Slice "'a list"

fun elems :: "'a slice \<Rightarrow> 'a list" where
  "elems nil_slice = []"
| "elems (Slice xs) = xs"

definition len :: "'a slice \<Rightarrow> nat" where
  "len s = length (elems s)"

definition append_slice :: "'a slice \<Rightarrow> 'a \<Rightarrow> 'a slice" where
  "append_slice s x = Slice (elems s @ [x])"

subsection \<open>Requests and responses\<close>

text \<open>
  \<^verbatim>\<open>multipart.FileHeader\<close>: the file name, the MIME header of the part (the caller's
  own \<^verbatim>\<open>Content-Type\<close> lives there) and the outcome of \<^verbatim>\<open>file.Open()\<close>, an error or
  the content. \<open>MultipartFiles\<close> of a request holds its parts that carry a
  \<^verbatim>\<open>filename\<close> parameter, as they were sent, under their form keys.
\<close>

record FileHeader =
  Filename :: string
  Header :: "string \<rightharpoonup> string"
  Open :: "string + string"

record gin_Context =
  MultipartFiles :: "string \<rightharpoonup> FileHeader"
  PostFormValues :: "string \<rightharpoonup> string"
  QueryValues :: "string \<rightharpoonup> string"

text \<open>
  \<^verbatim>\<open>c.FormFile(name)\<close> returns the first file for the form key, or an error. The
  multipart reader keeps a part whose \<^verbatim>\<open>filename\<close> is empty as a plain form value, so
  there is no file for it; and \<^verbatim>\<open>Request.FormFile\<close> opens the file it found and returns
  the error of that open. The handler's own \<^verbatim>\<open>file.Open()\<close> of line 110 has the same
  outcome here: an open that fails only the second time is not modelled.
\<close>

definition FormFile :: "gin_Context \<Rightarrow> string \<Rightarrow> string + FileHeader" where
  "FormFile c name =
     (case MultipartFiles c name of
        None \<Rightarrow> Inl ''http: no such file''
      | Some file \<Rightarrow>
          if Filename file = [] then Inl ''http: no such file''
          else (case Open file of
                  Inl openErr \<Rightarrow> Inl openErr
                | Inr f \<Rightarrow> Inr file))"

text \<open>\<^verbatim>\<open>c.PostForm(key)\<close> and \<^verbatim>\<open>c.Query(key)\<close> return the empty string when the key is absent.\<close>

definition PostForm :: "gin_Context \<Rightarrow> string \<Rightarrow> string" where
  "PostForm c key = (case PostFormValues c key of None \<Rightarrow> [] | Some v \<Rightarrow> v)"

definition Query :: "gin_Context \<Rightarrow> string \<Rightarrow> string" where
  "Query c key = (case QueryValues c key of None \<Rightarrow> [] | Some v \<Rightarrow> v)"

text \<open>
  \<^verbatim>\<open>gin.H\<close> is \<^verbatim>\<open>map[string]interface{}\<close>; the handlers put strings and one slice of
  \<^verbatim>\<open>map[string]string\<close> into it.
\<close>

datatype go_value = VString string | VBooks "(string \<rightharpoonup> string) slice"

type_synonym gin_H = "string \<rightharpoonup> go_value"

record response =
  status :: nat
  body :: gin_H

definition StatusOK :: nat where
  "StatusOK = 200"

definition StatusBadRequest :: nat where
  "StatusBadRequest = 400"

definition StatusInternalServerError :: nat where
  "StatusInternalServerError = 500"

subsection \<open>The storage capability\<close>

record PutObjectInput =
  Bucket :: string
  Key :: string
  Body :: string
  ACL :: string
  ContentType :: string

record PutObjectOutput =
  ETag :: "string option"

text \<open>
  \<^verbatim>\<open>FileUploader.Upload\<close>: an error or the output. The handler calls it at most once per
  request, so a function of the input covers every implementation, the mock and the real one.
\<close>

type_synonym FileUploader = "PutObjectInput \<Rightarrow> string + PutObjectOutput"

record ListObjectsV2Input =
  list_Bucket :: string
  Prefix :: string

text \<open>\<^verbatim>\<open>types.Object\<close>: \<^verbatim>\<open>Key\<close> is a \<^verbatim>\<open>*string\<close>, so it can be nil.\<close>

record Object =
  object_Key :: "string option"

record ListObjectsV2Output =
  Contents :: "Object list"

type_synonym S3Client = "ListObjectsV2Input \<Rightarrow> string + ListObjectsV2Output"

definition bucketName :: string where
  "bucketName = ''books-uploaded''"

subsection \<open>\<^verbatim>\<open>handleUpload\<close>\<close>

text \<open>
  Lines 103--106: the folder gets a trailing slash unless its last byte is one. The slice
  expression \<^verbatim>\<open>s3Folder[len(s3Folder)-1:]\<close> panics on the empty string; the handler
  reaches it only behind the guard \<^verbatim>\<open>s3Folder == ""\<close> of line 98, and so does every use
  of this function below.
\<close>

definition ensure_trailing_slash :: "string \<Rightarrow> string" where
  "ensure_trailing_slash s3Folder =
     (if drop (length s3Folder - 1) s3Folder \<noteq> ''/'' then s3Folder @ ''/'' else s3Folder)"

text \<open>Line 118: \<^verbatim>\<open>s3Key := s3Folder + file.Filename\<close>, on the folder of lines 103--106.\<close>

definition s3Key :: "string \<Rightarrow> string \<Rightarrow> string" where
  "s3Key s3Folder filename = ensure_trailing_slash s3Folder @ filename"

text \<open>Line 134.\<close>

definition fileURL :: "string \<Rightarrow> string" where
  "fileURL key = ''https://'' @ bucketName @ ''.s3.amazonaws.com/'' @ key"

definition error_H :: "string \<Rightarrow> gin_H" where
  "error_H msg = [''error'' \<mapsto> VString msg]"

record upload_outcome =
  response :: response
  uploads :: "PutObjectInput list"

definition handleUpload :: "gin_Context \<Rightarrow> FileUploader \<Rightarrow> upload_outcome" where
  "handleUpload c uploader =
     (case FormFile c ''pdf'' of
        Inl err \<Rightarrow>
          \<lparr>response = \<lparr>status = StatusBadRequest, body = error_H ''Failed to upload file''\<rparr>,
           uploads = []\<rparr>
      | Inr file \<Rightarrow>
          (let s3Folder = PostForm c ''s3_path'' in
           if s3Folder = [] then
             \<lparr>response = \<lparr>status = StatusBadRequest, body = error_H ''Missing s3_path''\<rparr>,
              uploads = []\<rparr>
           else
             (case Open file of
                Inl openErr \<Rightarrow>
                  \<lparr>response = \<lparr>status = StatusBadRequest, body = error_H ''Failed to open file''\<rparr>,
                   uploads = []\<rparr>
              | Inr f \<Rightarrow>
                  (let input = \<lparr>Bucket = bucketName, Key = s3Key s3Folder (Filename file),
                                Body = f, ACL = ''public-read'',
                                ContentType = ''application/pdf''\<rparr>
                   in case uploader input of
                        Inl uploadErr \<Rightarrow>
                          \<lparr>response = \<lparr>status = StatusInternalServerError,
                                       body = error_H ''Failed to upload file''\<rparr>,
                           uploads = [input]\<rparr>
                      | Inr out \<Rightarrow>
                          \<lparr>response = \<lparr>status = StatusOK,
                                       body = [''pdf_url'' \<mapsto> VString (fileURL (Key input)),
                                               ''pdf_name'' \<mapsto> VString (Filename file)]\<rparr>,
                           uploads = [input]\<rparr>))))"

subsection \<open>\<^verbatim>\<open>showLibrary\<close>\<close>

text \<open>Lines 159 and 160.\<close>

definition pdfURL :: "string \<Rightarrow> string" where
  "pdfURL key = ''https://'' @ bucketName @ ''.s3.amazonaws.com/'' @ key"

definition thumbnailURL :: "string \<Rightarrow> string" where
  "thumbnailURL key = ''https://'' @ bucketName @ ''.s3.amazonaws.com/thumbnails/'' @ key @ ''.jpg''"

text \<open>Lines 165--169: the map appended for one key.\<close>

definition book :: "string \<Rightarrow> (string \<rightharpoonup> string)" where
  "book key = [''url'' \<mapsto> pdfURL key, ''thumbnail'' \<mapsto> thumbnailURL key, ''name'' \<mapsto> key]"

text \<open>
  Lines 158--170: the loop over \<^verbatim>\<open>resp.Contents\<close>. Dereferencing a nil \<^verbatim>\<open>item.Key\<close>
  panics, which ends the handler without a response of its own: \<open>None\<close>.
\<close>

fun range_Contents ::
  "(string \<rightharpoonup> string) slice \<Rightarrow> Object list \<Rightarrow> (string \<rightharpoonup> string) slice option" where
  "range_Contents books [] = Some books"
| "range_Contents books (item # items) =
     (case object_Key item of
        None \<Rightarrow> None
      | Some key \<Rightarrow> range_Contents (append_slice books (book key)) items)"

record library_outcome =
  written :: "response option"
  list_calls :: "ListObjectsV2Input list"

definition showLibrary :: "gin_Context \<Rightarrow> S3Client \<Rightarrow> library_outcome" where
  "showLibrary c s3Client =
     (let userId = Query c ''userId'' in
      if userId = [] then
        \<lparr>written = Some \<lparr>status = StatusBadRequest, body = error_H ''Missing userId''\<rparr>,
         list_calls = []\<rparr>
      else
        (let input = \<lparr>list_Bucket = bucketName, Prefix = ''users/'' @ userId @ ''/''\<rparr>
         in case s3Client input of
              Inl err \<Rightarrow>
                \<lparr>written = Some \<lparr>status = StatusInternalServerError,
                                  body = error_H ''Failed to load library''\<rparr>,
                 list_calls = [input]\<rparr>
            | Inr resp \<Rightarrow>
                (case range_Contents nil_slice (Contents resp) of
                   None \<Rightarrow> \<lparr>written = None, list_calls = [input]\<rparr>
                 | Some books \<Rightarrow>
                     \<lparr>written = Some \<lparr>status = StatusOK, body = [''books'' \<mapsto> VBooks books]\<rparr>,
                      list_calls = [input]\<rparr>)))"

text \<open>
  For the statements below: the \<^verbatim>\<open>PutObjectInput\<close> of lines 121--127 for a request
  whose file part is \<open>file\<close> and whose opened content is \<open>f\<close>.
\<close>

definition upload_input :: "gin_Context \<Rightarrow> FileHeader \<Rightarrow> string \<Rightarrow> PutObjectInput" where
  "upload_input c file f =
     \<lparr>Bucket = bucketName, Key = s3Key (PostForm c ''s3_path'') (Filename file), Body = f,
      ACL = ''public-read'', ContentType = ''application/pdf''\<rparr>"

subsection \<open>Example requests\<close>

abbreviation no_request :: gin_Context where
  "no_request \<equiv> \<lparr>MultipartFiles = Map.empty, PostFormValues = Map.empty, QueryValues = Map.empty\<rparr>"

abbreviation book_pdf :: FileHeader where
  "book_pdf \<equiv> \<lparr>Filename = ''book.pdf'', Header = [''Content-Type'' \<mapsto> ''image/png''],
                Open = Inr ''%PDF-1.4''\<rparr>"

abbreviation upload_of :: "FileHeader \<Rightarrow> string \<Rightarrow> gin_Context" where
  "upload_of file folder \<equiv>
     \<lparr>MultipartFiles = [''pdf'' \<mapsto> file], PostFormValues = [''s3_path'' \<mapsto> folder],
      QueryValues = Map.empty\<rparr>"

abbreviation accepting :: FileUploader where
  "accepting \<equiv> (\<lambda>input. Inr \<lparr>ETag = Some ''etag''\<rparr>)"

abbreviation refusing :: FileUploader where
  "refusing \<equiv> (\<lambda>input. Inl ''AccessDenied'')"

abbreviation library_of :: "string \<Rightarrow> gin_Context" where
  "library_of userId \<equiv>
     \<lparr>MultipartFiles = Map.empty, PostFormValues = Map.empty, QueryValues = [''userId'' \<mapsto> userId]\<rparr>"

abbreviation listing :: "string list \<Rightarrow> S3Client" where
  "listing keys \<equiv> (\<lambda>input. Inr \<lparr>Contents = map (\<lambda>key. \<lparr>object_Key = Some key\<rparr>) keys\<rparr>)"

section \<open>Key construction\<close>

lemma drop_to_last: "xs \<noteq> [] \<Longrightarrow> drop (length xs - 1) xs = [last xs]"
  by (induction xs rule: rev_induct) simp_all

lemma ensure_trailing_slash_missing:
  "s3Folder \<noteq> [] \<Longrightarrow> last s3Folder \<noteq> CHR ''/'' \<Longrightarrow>
   ensure_trailing_slash s3Folder = s3Folder @ ''/''"
  using drop_to_last [of s3Folder] by (simp add: ensure_trailing_slash_def)

lemma ensure_trailing_slash_present:
  "s3Folder \<noteq> [] \<Longrightarrow> last s3Folder = CHR ''/'' \<Longrightarrow> ensure_trailing_slash s3Folder = s3Folder"
  using drop_to_last [of s3Folder] by (simp add: ensure_trailing_slash_def)

lemma ensure_trailing_slash_last:
  "s3Folder \<noteq> [] \<Longrightarrow>
   ensure_trailing_slash s3Folder \<noteq> [] \<and> last (ensure_trailing_slash s3Folder) = CHR ''/''"
  by (cases "last s3Folder = CHR ''/''")
     (simp_all add: ensure_trailing_slash_missing ensure_trailing_slash_present)


text \<open>
  C1: for a non-empty folder that does not end with the separator the key is
  folder + "/" + filename; for a folder that already ends with it the key is
  folder + filename, with no second separator: the separator is appended exactly when it
  is missing, and normalising the folder twice is the same as normalising it once.
\<close>

theorem s3Key_normalized:
  assumes "folder \<noteq> []"
  shows "(last folder \<noteq> CHR ''/'' \<longrightarrow> s3Key folder filename = folder @ ''/'' @ filename) \<and>
         (last folder = CHR ''/'' \<longrightarrow> s3Key folder filename = folder @ filename) \<and>
         ensure_trailing_slash folder = (if last folder = CHR ''/'' then folder else folder @ ''/'') \<and>
         ensure_trailing_slash (ensure_trailing_slash folder) = ensure_trailing_slash folder"
proof (intro conjI impI)
  assume "last folder \<noteq> CHR ''/''"
  with assms show "s3Key folder filename = folder @ ''/'' @ filename"
    by (simp add: s3Key_def ensure_trailing_slash_missing)
next
  assume "last folder = CHR ''/''"
  with assms show "s3Key folder filename = folder @ filename"
    by (simp add: s3Key_def ensure_trailing_slash_present)
next
  from assms show "ensure_trailing_slash folder = (if last folder = CHR ''/'' then folder else folder @ ''/'')"
    by (simp add: ensure_trailing_slash_missing ensure_trailing_slash_present)
next
  from assms show "ensure_trailing_slash (ensure_trailing_slash folder) = ensure_trailing_slash folder"
    using ensure_trailing_slash_last [of folder]
    by (simp add: ensure_trailing_slash_present)
qed

theorem s3Key_normalized_witness:
  "s3Key ''users/42'' ''book.pdf'' = ''users/42/book.pdf'' \<and>
   s3Key ''users/42/'' ''book.pdf'' = ''users/42/book.pdf'' \<and>
   ensure_trailing_slash ''users/42'' = ''users/42/'' \<and>
   ensure_trailing_slash (ensure_trailing_slash ''users/42'') = ''users/42/''"
  using s3Key_normalized [of "''users/42''" "''book.pdf''"]
    s3Key_normalized [of "''users/42/''" "''book.pdf''"]
  by simp

section \<open>What \<^verbatim>\<open>handleUpload\<close> does on each path\<close>

lemma FormFile_Inr:
  "FormFile c name = Inr file \<Longrightarrow>
   MultipartFiles c name = Some file \<and> Filename file \<noteq> [] \<and> (\<exists>f. Open file = Inr f)"
  by (auto simp: FormFile_def split: option.splits if_splits sum.splits)

lemma FormFile_unnamed:
  "MultipartFiles c name = Some file \<Longrightarrow> Filename file = [] \<Longrightarrow>
   FormFile c name = Inl ''http: no such file''"
  by (simp add: FormFile_def)

lemma FormFile_absent:
  "MultipartFiles c name = None \<Longrightarrow> FormFile c name = Inl ''http: no such file''"
  by (simp add: FormFile_def)

lemma handleUpload_no_file:
  "FormFile c ''pdf'' = Inl err \<Longrightarrow>
   handleUpload c uploader =
     \<lparr>response = \<lparr>status = StatusBadRequest, body = error_H ''Failed to upload file''\<rparr>,
      uploads = []\<rparr>"
  by (simp add: handleUpload_def Let_def)

lemma handleUpload_no_folder:
  "FormFile c ''pdf'' = Inr file \<Longrightarrow> PostForm c ''s3_path'' = [] \<Longrightarrow>
   handleUpload c uploader =
     \<lparr>response = \<lparr>status = StatusBadRequest, body = error_H ''Missing s3_path''\<rparr>,
      uploads = []\<rparr>"
  by (simp add: handleUpload_def Let_def)

lemma handleUpload_store_failed:
  "FormFile c ''pdf'' = Inr file \<Longrightarrow> PostForm c ''s3_path'' \<noteq> [] \<Longrightarrow>
   Open file = Inr f \<Longrightarrow> uploader (upload_input c file f) = Inl uploadErr \<Longrightarrow>
   handleUpload c uploader =
     \<lparr>response = \<lparr>status = StatusInternalServerError, body = error_H ''Failed to upload file''\<rparr>,
      uploads = [upload_input c file f]\<rparr>"
  by (simp add: handleUpload_def upload_input_def Let_def)

lemma handleUpload_stored:
  "FormFile c ''pdf'' = Inr file \<Longrightarrow> PostForm c ''s3_path'' \<noteq> [] \<Longrightarrow>
   Open file = Inr f \<Longrightarrow> uploader (upload_input c file f) = Inr out \<Longrightarrow>
   handleUpload c uploader =
     \<lparr>response = \<lparr>status = StatusOK,
                  body = [''pdf_url'' \<mapsto> VString (fileURL (s3Key (PostForm c ''s3_path'') (Filename file))),
                          ''pdf_name'' \<mapsto> VString (Filename file)]\<rparr>,
      uploads = [upload_input c file f]\<rparr>"
  by (simp add: handleUpload_def upload_input_def Let_def)

lemma handleUpload_uploads_cases:
  "uploads (handleUpload c uploader) = [] \<or>
   (\<exists>file f. FormFile c ''pdf'' = Inr file \<and> PostForm c ''s3_path'' \<noteq> [] \<and> Open file = Inr f \<and>
      uploads (handleUpload c uploader) = [upload_input c file f])"
  by (simp add: handleUpload_def upload_input_def Let_def split: sum.splits)


text \<open>
  C4: a request with a file part, a non-empty folder, a file that opens and an uploader
  that accepts the write is answered with status 200, \<^verbatim>\<open>pdf_url\<close> the fixed bucket URL
  followed by the computed key, and \<^verbatim>\<open>pdf_name\<close> the file name as received. A file
  that \<^verbatim>\<open>c.FormFile\<close> returns has a non-empty name.
\<close>

theorem handleUpload_success_payload:
  assumes "FormFile c ''pdf'' = Inr file"
    and "PostForm c ''s3_path'' = folder" and "folder \<noteq> []"
    and "Open file = Inr f"
    and "uploader (upload_input c file f) = Inr out"
  shows "response (handleUpload c uploader) =
           \<lparr>status = 200,
            body = [''pdf_url'' \<mapsto>
                      VString (''https://books-uploaded.s3.amazonaws.com/'' @ s3Key folder (Filename file)),
                    ''pdf_name'' \<mapsto> VString (Filename file)]\<rparr>"
  using assms handleUpload_stored [of c "file" f uploader out]
  by (simp add: fileURL_def bucketName_def StatusOK_def)

theorem handleUpload_success_payload_witness:
  "response (handleUpload (upload_of book_pdf ''users/42'') accepting) =
     \<lparr>status = 200,
      body = [''pdf_url'' \<mapsto> VString ''https://books-uploaded.s3.amazonaws.com/users/42/book.pdf'',
              ''pdf_name'' \<mapsto> VString ''book.pdf'']\<rparr>"
  using handleUpload_success_payload
    [of "upload_of book_pdf ''users/42''" book_pdf "''users/42''" "''%PDF-1.4''" accepting
        "\<lparr>ETag = Some ''etag''\<rparr>"]
  by (simp add: FormFile_def PostForm_def s3Key_def ensure_trailing_slash_def)


text \<open>
  C5, as the handler has it: the file part is looked up before the folder (lines 90--94 come
  before lines 97--101). A request with an empty or absent \<^verbatim>\<open>s3_path\<close> never reaches the
  uploader; it is answered with status 400 and "Missing s3_path" when it carries the file
  part, and with status 400 and "Failed to upload file" when it does not.
\<close>

theorem handleUpload_missing_folder:
  assumes "PostForm c ''s3_path'' = []"
  shows "uploads (handleUpload c uploader) = [] \<and>
         (\<forall>file. FormFile c ''pdf'' = Inr file \<longrightarrow>
            response (handleUpload c uploader) =
              \<lparr>status = 400, body = [''error'' \<mapsto> VString ''Missing s3_path'']\<rparr>) \<and>
         (\<forall>err. FormFile c ''pdf'' = Inl err \<longrightarrow>
            response (handleUpload c uploader) =
              \<lparr>status = 400, body = [''error'' \<mapsto> VString ''Failed to upload file'']\<rparr>)"
proof (intro conjI allI impI)
  show "uploads (handleUpload c uploader) = []"
    using assms handleUpload_uploads_cases [of c uploader] by auto
next
  fix fh assume "FormFile c ''pdf'' = Inr fh"
  with assms show "response (handleUpload c uploader) =
      \<lparr>status = 400, body = [''error'' \<mapsto> VString ''Missing s3_path'']\<rparr>"
    by (simp add: handleUpload_no_folder StatusBadRequest_def error_H_def)
next
  fix err assume "FormFile c ''pdf'' = Inl err"
  then show "response (handleUpload c uploader) =
      \<lparr>status = 400, body = [''error'' \<mapsto> VString ''Failed to upload file'']\<rparr>"
    by (simp add: handleUpload_no_file StatusBadRequest_def error_H_def)
qed

theorem handleUpload_missing_folder_witness:
  "PostForm (upload_of book_pdf []) ''s3_path'' = [] \<and>
   FormFile (upload_of book_pdf []) ''pdf'' = Inr book_pdf \<and>
   handleUpload (upload_of book_pdf []) accepting =
     \<lparr>response = \<lparr>status = 400, body = [''error'' \<mapsto> VString ''Missing s3_path'']\<rparr>,
      uploads = []\<rparr> \<and>
   PostForm no_request ''s3_path'' = [] \<and>
   FormFile no_request ''pdf'' = Inl ''http: no such file'' \<and>
   handleUpload no_request accepting =
     \<lparr>response = \<lparr>status = 400, body = [''error'' \<mapsto> VString ''Failed to upload file'']\<rparr>,
      uploads = []\<rparr>"
  using handleUpload_missing_folder [of "upload_of book_pdf []" accepting]
    handleUpload_missing_folder [of no_request accepting]
  by (simp add: FormFile_def PostForm_def)

text \<open>
  The claim C5 as it is written fails on a request that has neither the file part nor the
  folder: the answer is "Failed to upload file", not "Missing s3_path".
\<close>

theorem handleUpload_missing_folder_counterexample:
  "PostForm no_request ''s3_path'' = [] \<and>
   body (response (handleUpload no_request accepting)) ''error'' = Some (VString ''Failed to upload file'') \<and>
   body (response (handleUpload no_request accepting)) ''error'' \<noteq> Some (VString ''Missing s3_path'')"
  by (simp add: handleUpload_def FormFile_def PostForm_def error_H_def)

text \<open>
  C7, as the handler has it: the file and the folder are validated before any call of the
  uploader, the file first. A request without the file part, or with a file part whose
  name is empty, is answered status 400 with "Failed to upload file", whatever the folder
  is; a request with a file and an empty or absent folder is answered status 400 with
  "Missing s3_path"; neither reaches the uploader, and a request that does reach it has a
  file with a non-empty name and a non-empty folder.
\<close>

theorem handleUpload_validation:
  "(\<forall>err. FormFile c ''pdf'' = Inl err \<longrightarrow>
      handleUpload c uploader =
        \<lparr>response = \<lparr>status = 400, body = [''error'' \<mapsto> VString ''Failed to upload file'']\<rparr>,
         uploads = []\<rparr>) \<and>
   (MultipartFiles c ''pdf'' = None \<longrightarrow>
      handleUpload c uploader =
        \<lparr>response = \<lparr>status = 400, body = [''error'' \<mapsto> VString ''Failed to upload file'']\<rparr>,
         uploads = []\<rparr>) \<and>
   (\<forall>file. MultipartFiles c ''pdf'' = Some file \<and> Filename file = [] \<longrightarrow>
      handleUpload c uploader =
        \<lparr>response = \<lparr>status = 400, body = [''error'' \<mapsto> VString ''Failed to upload file'']\<rparr>,
         uploads = []\<rparr>) \<and>
   (\<forall>file. FormFile c ''pdf'' = Inr file \<and> PostForm c ''s3_path'' = [] \<longrightarrow>
      handleUpload c uploader =
        \<lparr>response = \<lparr>status = 400, body = [''error'' \<mapsto> VString ''Missing s3_path'']\<rparr>,
         uploads = []\<rparr>) \<and>
   (uploads (handleUpload c uploader) \<noteq> [] \<longrightarrow>
      (\<exists>file. FormFile c ''pdf'' = Inr file \<and> Filename file \<noteq> []) \<and> PostForm c ''s3_path'' \<noteq> [])"
proof (intro conjI allI impI)
  fix err assume "FormFile c ''pdf'' = Inl err"
  then show "handleUpload c uploader =
      \<lparr>response = \<lparr>status = 400, body = [''error'' \<mapsto> VString ''Failed to upload file'']\<rparr>,
       uploads = []\<rparr>"
    by (simp add: handleUpload_no_file StatusBadRequest_def error_H_def)
next
  assume "MultipartFiles c ''pdf'' = None"
  then have "FormFile c ''pdf'' = Inl ''http: no such file''"
    by (rule FormFile_absent)
  then show "handleUpload c uploader =
      \<lparr>response = \<lparr>status = 400, body = [''error'' \<mapsto> VString ''Failed to upload file'']\<rparr>,
       uploads = []\<rparr>"
    by (simp add: handleUpload_no_file StatusBadRequest_def error_H_def)
next
  fix fh assume "MultipartFiles c ''pdf'' = Some fh \<and> Filename fh = []"
  then have "FormFile c ''pdf'' = Inl ''http: no such file''"
    by (simp add: FormFile_unnamed)
  then show "handleUpload c uploader =
      \<lparr>response = \<lparr>status = 400, body = [''error'' \<mapsto> VString ''Failed to upload file'']\<rparr>,
       uploads = []\<rparr>"
    by (simp add: handleUpload_no_file StatusBadRequest_def error_H_def)
next
  fix fh assume "FormFile c ''pdf'' = Inr fh \<and> PostForm c ''s3_path'' = []"
  then show "handleUpload c uploader =
      \<lparr>response = \<lparr>status = 400, body = [''error'' \<mapsto> VString ''Missing s3_path'']\<rparr>,
       uploads = []\<rparr>"
    by (simp add: handleUpload_no_folder StatusBadRequest_def error_H_def)
next
  assume "uploads (handleUpload c uploader) \<noteq> []"
  then obtain fh where "FormFile c ''pdf'' = Inr fh"
    using handleUpload_uploads_cases [of c uploader] by auto
  then show "\<exists>file. FormFile c ''pdf'' = Inr file \<and> Filename file \<noteq> []"
    using FormFile_Inr [of c "''pdf''" fh] by auto
next
  assume "uploads (handleUpload c uploader) \<noteq> []"
  then show "PostForm c ''s3_path'' \<noteq> []"
    using handleUpload_uploads_cases [of c uploader] by auto
qed

theorem handleUpload_validation_witness:
  "FormFile (upload_of book_pdf ''docs'') ''pdf'' = Inr book_pdf \<and>
   PostForm (upload_of book_pdf ''docs'') ''s3_path'' = ''docs'' \<and>
   map Key (uploads (handleUpload (upload_of book_pdf ''docs'') accepting)) = [''docs/book.pdf''] \<and>
   FormFile (upload_of book_pdf []) ''pdf'' = Inr book_pdf \<and>
   PostForm (upload_of book_pdf []) ''s3_path'' = [] \<and>
   handleUpload (upload_of book_pdf []) accepting =
     \<lparr>response = \<lparr>status = 400, body = [''error'' \<mapsto> VString ''Missing s3_path'']\<rparr>,
      uploads = []\<rparr> \<and>
   MultipartFiles (upload_of (book_pdf\<lparr>Filename := []\<rparr>) ''docs'') ''pdf'' =
     Some (book_pdf\<lparr>Filename := []\<rparr>) \<and>
   Filename (book_pdf\<lparr>Filename := []\<rparr>) = [] \<and>
   handleUpload (upload_of (book_pdf\<lparr>Filename := []\<rparr>) ''docs'') accepting =
     \<lparr>response = \<lparr>status = 400, body = [''error'' \<mapsto> VString ''Failed to upload file'']\<rparr>,
      uploads = []\<rparr> \<and>
   MultipartFiles no_request ''pdf'' = None \<and>
   FormFile no_request ''pdf'' = Inl ''http: no such file'' \<and>
   handleUpload no_request accepting =
     \<lparr>response = \<lparr>status = 400, body = [''error'' \<mapsto> VString ''Failed to upload file'']\<rparr>,
      uploads = []\<rparr>"
proof -
  have reached: "map Key (uploads (handleUpload (upload_of book_pdf ''docs'') accepting)) = [''docs/book.pdf'']"
    by (simp add: handleUpload_def FormFile_def PostForm_def s3Key_def ensure_trailing_slash_def)
  then have "uploads (handleUpload (upload_of book_pdf ''docs'') accepting) \<noteq> []"
    by auto
  with reached show ?thesis
    using handleUpload_validation [of "upload_of book_pdf ''docs''" accepting]
      handleUpload_validation [of "upload_of book_pdf []" accepting]
      handleUpload_validation [of "upload_of (book_pdf\<lparr>Filename := []\<rparr>) ''docs''" accepting]
      handleUpload_validation [of no_request accepting]
    by (simp add: FormFile_def PostForm_def)
qed

text \<open>
  The claim C7 as it is written fails on a request that has no file part and an empty
  folder: it is answered "Failed to upload file", not "Missing s3_path", because the file
  is looked up first.
\<close>

theorem handleUpload_validation_counterexample:
  "PostForm (no_request\<lparr>PostFormValues := [''s3_path'' \<mapsto> []]\<rparr>) ''s3_path'' = [] \<and>
   handleUpload (no_request\<lparr>PostFormValues := [''s3_path'' \<mapsto> []]\<rparr>) accepting =
     \<lparr>response = \<lparr>status = 400, body = [''error'' \<mapsto> VString ''Failed to upload file'']\<rparr>,
      uploads = []\<rparr> \<and>
   body (response (handleUpload (no_request\<lparr>PostFormValues := [''s3_path'' \<mapsto> []]\<rparr>) accepting))
     ''error'' \<noteq> Some (VString ''Missing s3_path'')"
  by (simp add: handleUpload_def FormFile_def PostForm_def StatusBadRequest_def error_H_def)

text \<open>
  C9: whatever the request and the uploader, every \<^verbatim>\<open>PutObjectInput\<close> the handler hands
  to the uploader has the content type "application/pdf" and the ACL "public-read"; the
  header of the file part, where the caller's own content type is, is not read. A request
  with the file part, a non-empty folder and a file that opens makes exactly one such call.
\<close>

theorem handleUpload_content_type_acl:
  "(\<forall>input \<in> set (uploads (handleUpload c uploader)).
      ContentType input = ''application/pdf'' \<and> ACL input = ''public-read'') \<and>
   (\<forall>file f. FormFile c ''pdf'' = Inr file \<and> PostForm c ''s3_path'' \<noteq> [] \<and> Open file = Inr f \<longrightarrow>
      length (uploads (handleUpload c uploader)) = 1)"
proof (intro conjI allI impI ballI)
  fix input assume "input \<in> set (uploads (handleUpload c uploader))"
  then show "ContentType input = ''application/pdf''"
    using handleUpload_uploads_cases [of c uploader] by (auto simp: upload_input_def)
next
  fix input assume "input \<in> set (uploads (handleUpload c uploader))"
  then show "ACL input = ''public-read''"
    using handleUpload_uploads_cases [of c uploader] by (auto simp: upload_input_def)
next
  fix fh f
  assume "FormFile c ''pdf'' = Inr fh \<and> PostForm c ''s3_path'' \<noteq> [] \<and> Open fh = Inr f"
  then show "length (uploads (handleUpload c uploader)) = 1"
    by (simp add: handleUpload_def Let_def split: sum.splits)
qed

theorem handleUpload_content_type_acl_witness:
  "Header book_pdf ''Content-Type'' = Some ''image/png'' \<and>
   map ContentType (uploads (handleUpload (upload_of book_pdf ''users/42'') refusing)) = [''application/pdf''] \<and>
   map ACL (uploads (handleUpload (upload_of book_pdf ''users/42'') refusing)) = [''public-read'']"
proof -
  have one: "length (uploads (handleUpload (upload_of book_pdf ''users/42'') refusing)) = 1"
    using handleUpload_content_type_acl [of "upload_of book_pdf ''users/42''" refusing]
    by (simp add: FormFile_def PostForm_def)
  then obtain input where "uploads (handleUpload (upload_of book_pdf ''users/42'') refusing) = [input]"
    by (cases "uploads (handleUpload (upload_of book_pdf ''users/42'') refusing)") auto
  then show ?thesis
    using handleUpload_content_type_acl [of "upload_of book_pdf ''users/42''" refusing]
    by simp
qed

text \<open>
  C10: a request without the file part and a request whose store fails are both answered
  with the body \<^verbatim>\<open>{"error": "Failed to upload file"}\<close>: the two bodies are equal, although
  the first request made no call of the uploader and the second made one.
\<close>

theorem handleUpload_failed_to_upload_twice:
  assumes "FormFile c1 ''pdf'' = Inl err"
    and "FormFile c2 ''pdf'' = Inr file" and "PostForm c2 ''s3_path'' \<noteq> []"
    and "Open file = Inr f" and "uploader2 (upload_input c2 file f) = Inl uploadErr"
  shows "body (response (handleUpload c1 uploader1)) = [''error'' \<mapsto> VString ''Failed to upload file''] \<and>
         body (response (handleUpload c2 uploader2)) = body (response (handleUpload c1 uploader1)) \<and>
         uploads (handleUpload c1 uploader1) = [] \<and>
         uploads (handleUpload c2 uploader2) = [upload_input c2 file f]"
  using assms
  by (simp add: handleUpload_no_file handleUpload_store_failed error_H_def)

theorem handleUpload_failed_to_upload_twice_witness:
  "body (response (handleUpload no_request accepting)) = [''error'' \<mapsto> VString ''Failed to upload file''] \<and>
   body (response (handleUpload (upload_of book_pdf ''users/42'') refusing)) =
     body (response (handleUpload no_request accepting)) \<and>
   uploads (handleUpload no_request accepting) = [] \<and>
   map Key (uploads (handleUpload (upload_of book_pdf ''users/42'') refusing)) = [''users/42/book.pdf'']"
  using handleUpload_failed_to_upload_twice
    [of no_request "''http: no such file''" "upload_of book_pdf ''users/42''" book_pdf
        "''%PDF-1.4''" refusing "''AccessDenied''" accepting]
  by (simp add: FormFile_def PostForm_def upload_input_def s3Key_def ensure_trailing_slash_def)

lemma handleUpload_failed_to_upload_statuses:
  "status (response (handleUpload no_request accepting)) = 400 \<and>
   status (response (handleUpload (upload_of book_pdf ''users/42'') refusing)) = 500"
  by (simp add: handleUpload_def FormFile_def PostForm_def StatusBadRequest_def
      StatusInternalServerError_def)


section \<open>What \<^verbatim>\<open>showLibrary\<close> does\<close>

lemma range_Contents_keys:
  "map object_Key items = map Some keys \<Longrightarrow>
   range_Contents books items =
     Some (if keys = [] then books else Slice (elems books @ map book keys))"
proof (induction items arbitrary: books keys)
  case Nil
  then show ?case by simp
next
  case (Cons item items)
  then obtain key keys' where keys: "keys = key # keys'" and key: "object_Key item = Some key"
    and rest: "map object_Key items = map Some keys'"
    by (cases keys) auto
  from Cons.IH [OF rest, of "append_slice books (book key)"] keys key
  show ?case
    by (simp add: append_slice_def)
qed

lemma range_Contents_nil_key:
  "None \<in> set (map object_Key items) \<Longrightarrow> range_Contents books items = None"
  by (induction items arbitrary: books) (auto split: option.splits)

text \<open>
  C2: for a non-empty \<^verbatim>\<open>userId\<close> the handler makes exactly one listing call, on the
  bucket, with the prefix "users/" + userId + "/", the userId as received.
\<close>

theorem showLibrary_prefix:
  assumes "Query c ''userId'' = ownerId" and "ownerId \<noteq> []"
  shows "list_calls (showLibrary c s3Client) =
           [\<lparr>list_Bucket = ''books-uploaded'', Prefix = ''users/'' @ ownerId @ ''/''\<rparr>]"
  using assms
  by (simp add: showLibrary_def Let_def bucketName_def split: sum.splits option.splits)

theorem showLibrary_prefix_witness:
  "Query (library_of ''42'') ''userId'' = ''42'' \<and>
   list_calls (showLibrary (library_of ''42'') (listing [''users/42/book.pdf''])) =
     [\<lparr>list_Bucket = ''books-uploaded'', Prefix = ''users/42/''\<rparr>]"
  using showLibrary_prefix [of "library_of ''42''" "''42''" "listing [''users/42/book.pdf'']"]
  by (simp add: Query_def)

text \<open>
  C6: with an empty or absent \<^verbatim>\<open>userId\<close> the handler answers status 400 with
  "Missing userId" and makes no listing call.
\<close>

theorem showLibrary_missing_userId:
  assumes "Query c ''userId'' = []"
  shows "showLibrary c s3Client =
           \<lparr>written = Some \<lparr>status = 400, body = [''error'' \<mapsto> VString ''Missing userId'']\<rparr>,
            list_calls = []\<rparr>"
  using assms
  by (simp add: showLibrary_def StatusBadRequest_def error_H_def)

theorem showLibrary_missing_userId_witness:
  "Query no_request ''userId'' = [] \<and>
   Query (library_of []) ''userId'' = [] \<and>
   list_calls (showLibrary no_request (listing [''users/42/book.pdf''])) = [] \<and>
   written (showLibrary (library_of []) (listing [''users/42/book.pdf''])) =
     Some \<lparr>status = 400, body = [''error'' \<mapsto> VString ''Missing userId'']\<rparr>"
  using showLibrary_missing_userId [of no_request "listing [''users/42/book.pdf'']"]
    showLibrary_missing_userId [of "library_of []" "listing [''users/42/book.pdf'']"]
  by (simp add: Query_def)

text \<open>
  C8: the two URLs are functions of the key and the bucket name alone. Both start with the
  namespace root \<^verbatim>\<open>https://books-uploaded.s3.amazonaws.com/\<close>; the object URL is the root
  followed by the key, the thumbnail URL is the root followed by
  "thumbnails/" + key + ".jpg", which is the object URL of that longer key.
\<close>

theorem thumbnailURL_root:
  "pdfURL key = ''https://books-uploaded.s3.amazonaws.com/'' @ key \<and>
   thumbnailURL key = ''https://books-uploaded.s3.amazonaws.com/'' @ ''thumbnails/'' @ key @ ''.jpg'' \<and>
   thumbnailURL key = pdfURL (''thumbnails/'' @ key @ ''.jpg'') \<and>
   fileURL key = pdfURL key"
  by (simp add: pdfURL_def thumbnailURL_def fileURL_def bucketName_def)

text \<open>
  The listing of a user with N keys, each key non-nil: status 200 and, under "books", a
  slice of N maps in the order of the backend, the map at each position built from the key
  at that position (lines 165--169). The slice is nil exactly when N = 0: the loop never
  appended to what line 157 declared.
\<close>

theorem showLibrary_books:
  assumes "Query c ''userId'' \<noteq> []"
    and "s3Client \<lparr>list_Bucket = bucketName, Prefix = ''users/'' @ Query c ''userId'' @ ''/''\<rparr> = Inr resp"
    and "map object_Key (Contents resp) = map Some keys"
  shows "\<exists>books.
           written (showLibrary c s3Client) =
             Some \<lparr>status = 200, body = [''books'' \<mapsto> VBooks books]\<rparr> \<and>
           len books = length keys \<and>
           elems books = map book keys \<and>
           (books = nil_slice) = (keys = []) \<and>
           (\<forall>i < length keys.
              (elems books ! i) ''url'' = Some (pdfURL (keys ! i)) \<and>
              (elems books ! i) ''thumbnail'' = Some (thumbnailURL (keys ! i)) \<and>
              (elems books ! i) ''name'' = Some (keys ! i))"
proof -
  let ?books = "if keys = [] then nil_slice else Slice (map book keys)"
  from assms have "written (showLibrary c s3Client) =
      Some \<lparr>status = 200, body = [''books'' \<mapsto> VBooks ?books]\<rparr>"
    using range_Contents_keys [of "Contents resp" keys nil_slice]
    by (simp add: showLibrary_def Let_def StatusOK_def)
  moreover have "len ?books = length keys" and "elems ?books = map book keys"
    and "(?books = nil_slice) = (keys = [])"
    by (simp_all add: len_def)
  moreover have "\<forall>i < length keys.
      (elems ?books ! i) ''url'' = Some (pdfURL (keys ! i)) \<and>
      (elems ?books ! i) ''thumbnail'' = Some (thumbnailURL (keys ! i)) \<and>
      (elems ?books ! i) ''name'' = Some (keys ! i)"
    by (simp add: book_def)
  ultimately show ?thesis
    by blast
qed

theorem showLibrary_books_witness:
  "written (showLibrary (library_of ''42'') (listing [''users/42/b.pdf'', ''users/42/a.pdf''])) =
     Some \<lparr>status = 200,
           body = [''books'' \<mapsto> VBooks (Slice [book ''users/42/b.pdf'', book ''users/42/a.pdf''])]\<rparr> \<and>
   book ''users/42/b.pdf'' ''url'' = Some ''https://books-uploaded.s3.amazonaws.com/users/42/b.pdf'' \<and>
   book ''users/42/b.pdf'' ''thumbnail'' =
     Some ''https://books-uploaded.s3.amazonaws.com/thumbnails/users/42/b.pdf.jpg'' \<and>
   book ''users/42/b.pdf'' ''name'' = Some ''users/42/b.pdf''"
proof -
  from showLibrary_books [of "library_of ''42''" "listing [''users/42/b.pdf'', ''users/42/a.pdf'']"
      "\<lparr>Contents = map (\<lambda>key. \<lparr>object_Key = Some key\<rparr>) [''users/42/b.pdf'', ''users/42/a.pdf'']\<rparr>"
      "[''users/42/b.pdf'', ''users/42/a.pdf'']"]
  obtain books where
    w: "written (showLibrary (library_of ''42'') (listing [''users/42/b.pdf'', ''users/42/a.pdf''])) =
          Some \<lparr>status = 200, body = [''books'' \<mapsto> VBooks books]\<rparr>"
    and e: "elems books = map book [''users/42/b.pdf'', ''users/42/a.pdf'']"
    and n: "(books = nil_slice) = ([''users/42/b.pdf'', ''users/42/a.pdf''] = ([]::string list))"
    by (auto simp: Query_def)
  from e n have "books = Slice [book ''users/42/b.pdf'', book ''users/42/a.pdf'']"
    by (cases books) simp_all
  with w show ?thesis
    by (simp add: book_def pdfURL_def thumbnailURL_def bucketName_def)
qed

text \<open>
  C3 at a listing of zero keys: the handler answers status 200 and the value it hands to
  \<^verbatim>\<open>c.JSON\<close> under "books" is the nil slice, not an allocated slice of length 0.
\<close>

theorem showLibrary_no_keys:
  "showLibrary (library_of ''42'') (listing []) =
     \<lparr>written = Some \<lparr>status = 200, body = [''books'' \<mapsto> VBooks nil_slice]\<rparr>,
      list_calls = [\<lparr>list_Bucket = ''books-uploaded'', Prefix = ''users/42/''\<rparr>]\<rparr> \<and>
   VBooks nil_slice \<noteq> VBooks (Slice [])"
  by (simp add: showLibrary_def Query_def Let_def StatusOK_def bucketName_def)

end
